theory Spec2Isabelle
  imports
    Complex_Main
    "HOL-Library.Char_ord"
    "HOL-Library.Log_Nat"
    "HOL-Library.List_Lexorder"
    "HOL-Library.Product_Lexorder"
begin

section \<open>Strings as the generator uses them\<close>

text \<open>
  The generator (\<^verbatim>\<open>blue_slate.py\<close>) is string processing from end to end.  A Python
  \<^verbatim>\<open>str\<close> is modelled by \<^typ>\<open>string\<close>, one \<^typ>\<open>char\<close> per character, and the text is
  taken to be ASCII: the character classes below are the ASCII part of Python's classes,
  and a character above 127 is an ordinary character that is neither space, digit, letter
  nor word character.
\<close>

definition is_space :: "char \<Rightarrow> bool" where
  \<comment> \<open>\<^verbatim>\<open>str.isspace\<close> on ASCII: TAB, LF, VT, FF, CR, FS, GS, RS, US and the blank.\<close>
  "is_space c \<longleftrightarrow> c \<in> set [CHR 0x09, CHR 0x0A, CHR 0x0B, CHR 0x0C, CHR 0x0D,
                             CHR 0x1C, CHR 0x1D, CHR 0x1E, CHR 0x1F, CHR 0x20]"

definition is_digit :: "char \<Rightarrow> bool" where
  "is_digit c \<longleftrightarrow> c \<in> set ''0123456789''"

definition is_lower :: "char \<Rightarrow> bool" where
  "is_lower c \<longleftrightarrow> c \<in> set ''abcdefghijklmnopqrstuvwxyz''"

definition is_upper :: "char \<Rightarrow> bool" where
  "is_upper c \<longleftrightarrow> c \<in> set ''ABCDEFGHIJKLMNOPQRSTUVWXYZ''"

definition is_alpha :: "char \<Rightarrow> bool" where
  "is_alpha c \<longleftrightarrow> is_lower c \<or> is_upper c"

definition is_word :: "char \<Rightarrow> bool" where
  \<comment> \<open>the class \<^verbatim>\<open>\w\<close> of \<^verbatim>\<open>re\<close>\<close>
  "is_word c \<longleftrightarrow> is_alpha c \<or> is_digit c \<or> c = CHR ''_''"

definition to_upper :: "char \<Rightarrow> char" where
  "to_upper c =
     (case map_of (zip ''abcdefghijklmnopqrstuvwxyz'' ''ABCDEFGHIJKLMNOPQRSTUVWXYZ'') c of
        Some u \<Rightarrow> u
      | None \<Rightarrow> c)"


definition upper :: "string \<Rightarrow> string" where
  "upper s = map to_upper s"


definition lstrip :: "string \<Rightarrow> string" where
  "lstrip s = dropWhile is_space s"

definition rstrip :: "string \<Rightarrow> string" where
  "rstrip s = rev (dropWhile is_space (rev s))"

definition strip :: "string \<Rightarrow> string" where
  "strip s = lstrip (rstrip s)"

fun startswith :: "string \<Rightarrow> string \<Rightarrow> bool" where
  "startswith s [] = True"
| "startswith [] (p # ps) = False"
| "startswith (c # cs) (p # ps) = (c = p \<and> startswith cs ps)"

fun find_str :: "string \<Rightarrow> string \<Rightarrow> nat option" where
  \<comment> \<open>\<^verbatim>\<open>s.find(p)\<close>: the least index at which \<open>p\<close> starts in \<open>s\<close>\<close>
  "find_str [] p = (if p = [] then Some 0 else None)"
| "find_str (c # cs) p =
     (if startswith (c # cs) p then Some 0 else map_option Suc (find_str cs p))"

definition contains :: "string \<Rightarrow> string \<Rightarrow> bool" where
  \<comment> \<open>\<^verbatim>\<open>p in s\<close>\<close>
  "contains s p \<longleftrightarrow> find_str s p \<noteq> None"

fun escape_char :: "char \<Rightarrow> string" where
  "escape_char c =
     (if c = CHR ''&'' then ''&amp;''
      else if c = CHR ''<'' then ''&lt;''
      else if c = CHR ''>'' then ''&gt;''
      else if c = CHR 0x22 then ''&quot;''
      else if c = CHR 0x27 then ''&#x27;''
      else [c])"

definition escape :: "string \<Rightarrow> string" where
  \<comment> \<open>\<^verbatim>\<open>html.escape(s)\<close> with its default \<^verbatim>\<open>quote=True\<close>\<close>
  "escape s = concat (map escape_char s)"

section \<open>Configuration and records\<close>

text \<open>
  The three module constants are read by the helpers; they are gathered in a record that
  the functions take as their first argument.  \<open>source_config\<close> holds the values of the
  source file.
\<close>

record config =
  IMAGE_BASE :: string
  DEFAULT_IMAGE_URL :: string
  YEAR_FILTER :: "string option"

definition source_config :: config where
  "source_config =
     \<lparr> IMAGE_BASE = ''https://si339.github.io/ClientData/21615274/'',
       DEFAULT_IMAGE_URL =
         ''https://raw.githubusercontent.com/vannesschia/SI338/main/images/skyline_logo.jpg'',
       YEAR_FILTER = None \<rparr>"

text \<open>
  A result record is a Python \<^verbatim>\<open>dict\<close> from column names to cell texts; \<^verbatim>\<open>r.get(k)\<close> is
  \<open>r k\<close>, with \<open>None\<close> for a missing column.
\<close>

type_synonym record_dict = "string \<rightharpoonup> string"

definition or_empty :: "string option \<Rightarrow> string" where
  \<comment> \<open>\<^verbatim>\<open>(x or "")\<close>\<close>
  "or_empty x = (case x of None \<Rightarrow> [] | Some s \<Rightarrow> s)"

section \<open>Helpers\<close>

definition safe :: "string option \<Rightarrow> string \<Rightarrow> string" where
  "safe val dflt = (let v = strip (or_empty val) in if v \<noteq> [] then v else dflt)"

definition NA :: string where
  \<comment> \<open>the default of \<^verbatim>\<open>safe\<close>'s second parameter\<close>
  "NA = ''N/A''"

definition year_at :: "char option \<Rightarrow> string \<Rightarrow> bool" where
  \<comment> \<open>\<^verbatim>\<open>\b(20\d{2})\b\<close> matches at the head of \<open>s\<close>, \<open>prev\<close> being the character before it\<close>
  "year_at prev s \<longleftrightarrow>
     (case prev of None \<Rightarrow> True | Some p \<Rightarrow> \<not> is_word p) \<and>
     (case s of
        a # b # c # d # rest \<Rightarrow>
          a = CHR ''2'' \<and> b = CHR ''0'' \<and> is_digit c \<and> is_digit d \<and>
          (case rest of [] \<Rightarrow> True | e # _ \<Rightarrow> \<not> is_word e)
      | _ \<Rightarrow> False)"

fun year_search :: "char option \<Rightarrow> string \<Rightarrow> string option" where
  \<comment> \<open>\<^verbatim>\<open>re.search\<close>: the leftmost match, scanning from the left\<close>
  "year_search prev [] = None"
| "year_search prev (c # cs) =
     (if year_at prev (c # cs) then Some (take 4 (c # cs)) else year_search (Some c) cs)"

definition year_from_date :: "string \<Rightarrow> string" where
  "year_from_date date_str =
     (if date_str = [] then []
      else case year_search None date_str of Some y \<Rightarrow> y | None \<Rightarrow> [])"

definition image_url :: "config \<Rightarrow> string \<Rightarrow> string" where
  "image_url cfg photo_filename =
     (let fn = strip photo_filename in
      if fn = [] \<or> upper fn = ''N/A''
      then (if strip (DEFAULT_IMAGE_URL cfg) \<noteq> [] then strip (DEFAULT_IMAGE_URL cfg) else [])
      else IMAGE_BASE cfg @ fn)"

definition image_alt_text :: "record_dict \<Rightarrow> string \<Rightarrow> string" where
  "image_alt_text record fallback =
     (let alt = strip (or_empty (record ''AltText'')) in if alt \<noteq> [] then alt else fallback)"

section \<open>Errors\<close>

text \<open>
  Every exception the modelled code can raise is a value here.  \<open>ReError\<close> is \<^verbatim>\<open>re.error\<close>.
\<close>

datatype py_error = ValueError | IndexError | OverflowError | ReError

section \<open>Numbers: \<^verbatim>\<open>int()\<close>, \<^verbatim>\<open>float()\<close> and float addition\<close>



definition pow10 :: "int \<Rightarrow> rat" where
  "pow10 e = (if 0 \<le> e then 10 ^ nat e else 1 / 10 ^ nat (- e))"







definition digit_val :: "char \<Rightarrow> int" where
  "digit_val c = of_char c - 48"

definition dec :: "string \<Rightarrow> int" where
  \<comment> \<open>the value of a string of decimal digits\<close>
  "dec ds = foldl (\<lambda>a c. 10 * a + digit_val c) 0 ds"

definition c_isspace :: "char \<Rightarrow> bool" where
  \<comment> \<open>the white space that \<^verbatim>\<open>int()\<close> and \<^verbatim>\<open>float()\<close> skip in an ASCII string\<close>
  "c_isspace c \<longleftrightarrow> c \<in> set [CHR 0x09, CHR 0x0A, CHR 0x0B, CHR 0x0C, CHR 0x0D, CHR 0x20]"

definition c_strip :: "string \<Rightarrow> string" where
  "c_strip s = dropWhile c_isspace (rev (dropWhile c_isspace (rev s)))"

fun take_sign :: "string \<Rightarrow> bool \<times> string" where
  "take_sign [] = (False, [])"
| "take_sign (c # cs) =
     (if c = CHR ''-'' then (True, cs) else if c = CHR ''+'' then (False, cs)
      else (False, c # cs))"

fun digitpart :: "string \<Rightarrow> bool" where
  \<comment> \<open>\<^verbatim>\<open>digit (["_"] digit)*\<close>\<close>
  "digitpart [] = False"
| "digitpart [c] = is_digit c"
| "digitpart (c # d # r) =
     (is_digit c \<and> (if d = CHR ''_'' then digitpart r else digitpart (d # r)))"

definition int_max_str_digits :: nat where
  "int_max_str_digits = 4300"

definition py_int :: "string \<Rightarrow> int option" where
  \<comment> \<open>\<^verbatim>\<open>int(s)\<close>; \<open>None\<close> is \<^verbatim>\<open>ValueError\<close>\<close>
  "py_int s =
     (let (neg, r) = take_sign (c_strip s); ds = filter is_digit r
      in if digitpart r \<and> length ds \<le> int_max_str_digits
         then Some (if neg then - dec ds else dec ds)
         else None)"


definition decimal_value :: "string \<Rightarrow> string \<Rightarrow> int \<Rightarrow> rat" where
  \<comment> \<open>integer digits, fraction digits and exponent\<close>
  "decimal_value ip fp e = of_int (dec (ip @ fp)) * pow10 (e - int (length fp))"



section \<open>Race times\<close>

fun split_on :: "char \<Rightarrow> string \<Rightarrow> string list" where
  \<comment> \<open>\<^verbatim>\<open>s.split(sep)\<close> for a separator of one character\<close>
  "split_on sep [] = [[]]"
| "split_on sep (c # cs) =
     (if c = sep then [] # split_on sep cs
      else case split_on sep cs of p # ps \<Rightarrow> (c # p) # ps | [] \<Rightarrow> [[c]])"



section \<open>CSV sections\<close>


fun first_index :: "('a \<Rightarrow> bool) \<Rightarrow> 'a list \<Rightarrow> nat option" where
  \<comment> \<open>\<^verbatim>\<open>next((i for i, r in enumerate(rows) if P(r)), None)\<close>\<close>
  "first_index P [] = None"
| "first_index P (x # xs) = (if P x then Some 0 else map_option Suc (first_index P xs))"


definition slice :: "'a list \<Rightarrow> nat \<Rightarrow> nat \<Rightarrow> 'a list" where
  \<comment> \<open>\<^verbatim>\<open>xs[a:b]\<close> for \<open>0 \<le> a\<close> and \<open>0 \<le> b\<close>\<close>
  "slice xs a b = drop a (take b xs)"


section \<open>Meet cards\<close>

definition nl :: string where
  "nl = [CHR 0x0A]"

fun str_nat :: "nat \<Rightarrow> string" where
  \<comment> \<open>the decimal text of a number, as an f-string prints it\<close>
  "str_nat n =
     (if n < 10 then [''0123456789'' ! n]
      else str_nat (n div 10) @ [''0123456789'' ! (n mod 10)])"

declare str_nat.simps [simp del]

definition passes_year_filter :: "config \<Rightarrow> record_dict \<Rightarrow> bool" where
  "passes_year_filter cfg r \<longleftrightarrow>
     (case YEAR_FILTER cfg of
        None \<Rightarrow> True
      | Some y \<Rightarrow> year_from_date (strip (or_empty (r ''Date''))) = y)"

fun filter_loop :: "config \<Rightarrow> record_dict list \<Rightarrow> record_dict list \<Rightarrow> record_dict list" where
  \<comment> \<open>the first loop of \<^verbatim>\<open>build_meet_cards\<close>; the second argument is \<^verbatim>\<open>filtered\<close>\<close>
  "filter_loop cfg filtered [] = filtered"
| "filter_loop cfg filtered (r # rs) =
     (if passes_year_filter cfg r then filter_loop cfg (filtered @ [r]) rs
      else filter_loop cfg filtered rs)"

definition details_id :: "nat \<Rightarrow> string" where
  "details_id i = ''race-details-'' @ str_nat i"

definition title_id :: "nat \<Rightarrow> string" where
  "title_id i = ''meet-'' @ str_nat i @ ''-title''"

definition img_html :: "config \<Rightarrow> record_dict \<Rightarrow> string" where
  \<open>img_html cfg r =
     (let meet = safe (r ''Meet Name'') NA;
          photo_fn = strip (or_empty (r ''PhotoFileName''));
          img_src = image_url cfg photo_fn
      in if img_src \<noteq> []
         then ''<img src="'' @ escape img_src @ ''" alt="'' @
              image_alt_text r (''Photo from '' @ meet @ ''.'') @
              ''" loading="lazy" decoding="async">''
         else ''<p>No image available.</p>'')\<close>

definition meet_card :: "config \<Rightarrow> nat \<Rightarrow> record_dict \<Rightarrow> string" where
  \<open>meet_card cfg i r =
     (let meet = safe (r ''Meet Name'') NA;
          date = safe (r ''Date'') NA;
          time = safe (r ''Time'') NA;
          grade = safe (r ''Grade'') NA;
          place = safe (r ''Overall Place'') NA
      in concat
        [nl,
         ''        <article class="meet-card" aria-labelledby="'', title_id i, ''">'', nl,
         ''          <h3 id="'', title_id i, ''">'', escape meet, ''</h3>'', nl,
         nl,
         ''          <div class="spacer">'', nl,
         ''            '', img_html cfg r, nl,
         ''          </div>'', nl,
         nl,
         ''          <button type="button" class="open-panel" aria-expanded="false" aria-controls="'',
           details_id i, ''">'', nl,
         ''            More info'', nl,
         ''          </button>'', nl,
         nl,
         ''          <div id="'', details_id i, ''" class="race-details" hidden>'', nl,
         ''            <p><strong>Date:</strong> '', escape date, ''</p>'', nl,
         ''            <p><strong>Time:</strong> '', escape time, ''</p>'', nl,
         ''            <p><strong>Grade:</strong> '', escape grade, ''</p>'', nl,
         ''            <p><strong>Overall place:</strong> '', escape place, ''</p>'', nl,
         ''          </div>'', nl,
         ''        </article>'', nl])\<close>

fun cards_loop :: "config \<Rightarrow> nat \<Rightarrow> record_dict list \<Rightarrow> string list \<Rightarrow> string list" where
  \<comment> \<open>the second loop, \<^verbatim>\<open>for i, r in enumerate(filtered, start=1)\<close>; the last argument is
      \<^verbatim>\<open>cards\<close>\<close>
  "cards_loop cfg i [] cards = cards"
| "cards_loop cfg i (r # rs) cards = cards_loop cfg (Suc i) rs (cards @ [meet_card cfg i r])"

definition meet_cards :: "config \<Rightarrow> record_dict list \<Rightarrow> string list" where
  \<comment> \<open>the list \<^verbatim>\<open>cards\<close> when both loops are done\<close>
  "meet_cards cfg records = cards_loop cfg 1 (filter_loop cfg [] records) []"

definition build_meet_cards :: "config \<Rightarrow> record_dict list \<Rightarrow> string" where
  "build_meet_cards cfg records =
     (let cards = meet_cards cfg records
      in if cards = [] then ''<p>No meets found.</p>'' else concat cards)"

section \<open>Dates: \<^verbatim>\<open>datetime.strptime\<close> and \<^verbatim>\<open>isoformat\<close>\<close>



















section \<open>Race series\<close>











section \<open>Injecting the cards into the template\<close>




section \<open>Replacing the first heading\<close>

text \<open>
  \<^verbatim>\<open>re.sub\<close> reads its replacement text as a template: a backslash starts an escape or a
  group reference.  The template is parsed before the text is searched, so a malformed
  template raises \<^verbatim>\<open>re.error\<close> whether or not the pattern matches.  The pattern here has no
  group, so the only reference that can be valid is the one to the whole match.
\<close>

definition backslash :: char where
  "backslash = CHR 0x5C"

datatype token = Tok string | BadEscapeEnd

fun tokenize :: "string \<Rightarrow> token list" where
  \<comment> \<open>a backslash takes the next character with it; a backslash at the end is an error,
      raised when the tokenizer reaches it\<close>
  "tokenize [] = []"
| "tokenize [c] = (if c = backslash then [BadEscapeEnd] else [Tok [c]])"
| "tokenize (c # d # r) =
     (if c = backslash then Tok [c, d] # tokenize r else Tok [c] # tokenize (d # r))"

datatype item = Lit string | WholeMatch

definition is_octdigit_tok :: "token \<Rightarrow> bool" where
  "is_octdigit_tok t \<longleftrightarrow> (case t of Tok [c] \<Rightarrow> c \<in> set ''01234567'' | _ \<Rightarrow> False)"

definition is_digit_tok :: "token \<Rightarrow> bool" where
  "is_digit_tok t \<longleftrightarrow> (case t of Tok [c] \<Rightarrow> is_digit c | _ \<Rightarrow> False)"

definition tok_text :: "token \<Rightarrow> string" where
  "tok_text t = (case t of Tok s \<Rightarrow> s | BadEscapeEnd \<Rightarrow> [])"

definition octal :: "string \<Rightarrow> nat" where
  "octal ds = foldl (\<lambda>a c. 8 * a + nat (digit_val c)) 0 ds"

definition is_identifier :: "string \<Rightarrow> bool" where
  \<comment> \<open>\<^verbatim>\<open>str.isidentifier\<close> on ASCII\<close>
  "is_identifier s \<longleftrightarrow>
     s \<noteq> [] \<and> (is_alpha (hd s) \<or> hd s = CHR ''_'') \<and> list_all is_word s"

definition escapes :: "(char \<times> char) list" where
  "escapes =
     [(CHR ''a'', CHR 0x07), (CHR ''b'', CHR 0x08), (CHR ''f'', CHR 0x0C), (CHR ''n'', CHR 0x0A),
      (CHR ''r'', CHR 0x0D), (CHR ''t'', CHR 0x09), (CHR ''v'', CHR 0x0B),
      (backslash, backslash)]"

definition ends_badly :: "token list \<Rightarrow> bool" where
  \<comment> \<open>the tokenizer, fetching the next token, meets the backslash at the end\<close>
  "ends_badly ts \<longleftrightarrow> (case ts of BadEscapeEnd # _ \<Rightarrow> True | _ \<Rightarrow> False)"

definition then_items :: "item \<Rightarrow> py_error + item list \<Rightarrow> py_error + item list" where
  "then_items x rest = (case rest of Inl e \<Rightarrow> Inl e | Inr xs \<Rightarrow> Inr (x # xs))"

function parse_template :: "token list \<Rightarrow> py_error + item list" where
  "parse_template [] = Inr []"
| "parse_template (BadEscapeEnd # ts) = Inl ReError"
| "parse_template (Tok this # ts) =
     (if ends_badly ts then Inl ReError
      else if hd this \<noteq> backslash then then_items (Lit this) (parse_template ts)
      else
        let c = this ! 1 in
        if c = CHR ''g'' then
          (if ts = [] \<or> hd ts \<noteq> Tok ''<'' then Inl ReError
           else
             let name_toks = takeWhile (\<lambda>t. t \<noteq> Tok ''>'') (tl ts);
                 after = dropWhile (\<lambda>t. t \<noteq> Tok ''>'') (tl ts);
                 name = concat (map tok_text name_toks)
             in if after = [] \<or> ends_badly (tl after) \<or> name = [] then Inl ReError
                else if is_identifier name then Inl IndexError
                else if py_int name = Some 0
                  then then_items WholeMatch (parse_template (tl after))
                  else Inl ReError)
        else if c = CHR ''0'' then
          (if ts \<noteq> [] \<and> is_octdigit_tok (hd ts) then
             (if ends_badly (tl ts) then Inl ReError
              else if tl ts \<noteq> [] \<and> is_octdigit_tok (hd (tl ts)) then
                (if ends_badly (tl (tl ts)) then Inl ReError
                 else then_items
                        (Lit [char_of (octal (tok_text (hd ts) @ tok_text (hd (tl ts))))])
                        (parse_template (tl (tl ts))))
              else then_items (Lit [char_of (octal (tok_text (hd ts)))])
                     (parse_template (tl ts)))
           else then_items (Lit [char_of (0::nat)]) (parse_template ts))
        else if is_digit c then
          (if ts \<noteq> [] \<and> is_digit_tok (hd ts) then
             (if ends_badly (tl ts) then Inl ReError
              else if c \<in> set ''01234567'' \<and> is_octdigit_tok (hd ts) \<and>
                      tl ts \<noteq> [] \<and> is_octdigit_tok (hd (tl ts)) then
                (if ends_badly (tl (tl ts)) then Inl ReError
                 else
                   let v = octal (c # tok_text (hd ts) @ tok_text (hd (tl ts)))
                   in if 255 < v then Inl ReError
                      else then_items (Lit [char_of v]) (parse_template (tl (tl ts))))
              else Inl ReError)
           else Inl ReError)
        else
          (case map_of escapes c of
             Some e \<Rightarrow> then_items (Lit [e]) (parse_template ts)
           | None \<Rightarrow>
               if is_alpha c then Inl ReError
               else then_items (Lit this) (parse_template ts)))"
  by pat_completeness auto
termination
  by (relation "measure length")
     (auto simp: less_Suc_eq_le le_diff_conv intro: le_trans [OF length_dropWhile_le])

definition expand_template :: "item list \<Rightarrow> string \<Rightarrow> string" where
  "expand_template items matched =
     concat (map (\<lambda>x. case x of Lit s \<Rightarrow> s | WholeMatch \<Rightarrow> matched) items)"

fun h1_search :: "nat \<Rightarrow> string \<Rightarrow> (nat \<times> nat) option" where
  \<comment> \<open>\<^verbatim>\<open><h1>.*?</h1>\<close> with \<^verbatim>\<open>re.DOTALL\<close>: start and end of the leftmost match; at a start
      the lazy \<^verbatim>\<open>.*?\<close> stops at the nearest \<^verbatim>\<open></h1>\<close>\<close>
  "h1_search i [] = None"
| "h1_search i (c # cs) =
     (if startswith (c # cs) ''<h1>'' then
        (case find_str (drop 4 (c # cs)) ''</h1>'' of
           Some k \<Rightarrow> Some (i, i + 4 + k + 5)
         | None \<Rightarrow> h1_search (Suc i) cs)
      else h1_search (Suc i) cs)"

definition replace_first_h1 :: "string \<Rightarrow> string \<Rightarrow> py_error + string" where
  "replace_first_h1 html_text new_name =
     (if strip new_name = [] then Inr html_text
      else
        case parse_template (tokenize (''<h1>'' @ escape (strip new_name) @ ''</h1>'')) of
          Inl e \<Rightarrow> Inl e
        | Inr items \<Rightarrow>
            (case h1_search 0 html_text of
               None \<Rightarrow> Inr html_text
             | Some (a, b) \<Rightarrow>
                 Inr (take a html_text @ expand_template items (slice html_text a b) @
                      drop b html_text)))"

section \<open>Words of the specification\<close>






definition digits :: "string \<Rightarrow> bool" where
  \<comment> \<open>one or more decimal digits\<close>
  "digits s \<longleftrightarrow> s \<noteq> [] \<and> list_all is_digit s"

definition seconds_text :: "string \<Rightarrow> bool" where
  \<comment> \<open>seconds, fractional seconds allowed: digits, or digits, a point and digits\<close>
  "seconds_text s \<longleftrightarrow>
     (let ip = takeWhile is_digit s; r = dropWhile is_digit s
      in ip \<noteq> [] \<and> (r = [] \<or> (hd r = CHR ''.'' \<and> digits (tl r))))"

definition seconds_value :: "string \<Rightarrow> rat" where
  \<comment> \<open>the number such a text denotes\<close>
  "seconds_value s =
     decimal_value (takeWhile is_digit s)
       (if dropWhile is_digit s = [] then [] else tl (dropWhile is_digit s)) 0"

definition spec_time_format :: "string \<Rightarrow> bool" where
  \<comment> \<open>the three formats of the specification: \<^verbatim>\<open>H:MM:SS\<close>, \<^verbatim>\<open>MM:SS\<close> and bare seconds\<close>
  "spec_time_format t \<longleftrightarrow>
     (case split_on CHR '':'' t of
        [s] \<Rightarrow> seconds_text s
      | [m, s] \<Rightarrow> digits m \<and> seconds_text s
      | [h, m, s] \<Rightarrow> digits h \<and> digits m \<and> seconds_text s
      | _ \<Rightarrow> False)"

definition float_max_int :: int where
  \<comment> \<open>the least integer that no longer converts to a \<^verbatim>\<open>float\<close>\<close>
  "float_max_int = 2 ^ 1024 - 2 ^ 970"

fun join_sep :: "char \<Rightarrow> string list \<Rightarrow> string" where
  \<comment> \<open>\<^verbatim>\<open>sep.join(parts)\<close>\<close>
  "join_sep sep [] = []"
| "join_sep sep [p] = p"
| "join_sep sep (p # q # ps) = p @ sep # join_sep sep (q # ps)"

section \<open>Properties of the string helpers\<close>





section \<open>Image URL resolution (C8)\<close>




section \<open>Reading the CSV sections (C10, C4)\<close>

lemma first_index_Some:
  "first_index P xs = Some i \<Longrightarrow> i < length xs \<and> P (xs ! i) \<and> (\<forall>j<i. \<not> P (xs ! j))"
proof (induction xs arbitrary: i)
  case Nil
  then show ?case by simp
next
  case (Cons x xs)
  show ?case
  proof (cases "P x")
    case True
    with Cons.prems show ?thesis by simp
  next
    case False
    with Cons.prems obtain k where k: "first_index P xs = Some k" "i = Suc k"
      by auto
    from Cons.IH [OF k(1)] False k(2) show ?thesis
      by (auto simp: nth_Cons split: nat.splits)
  qed
qed






section \<open>The anchors of the template (C3, C4)\<close>

lemma startswith_iff: "startswith s p \<longleftrightarrow> (\<exists>r. s = p @ r)"
  by (induction s p rule: startswith.induct) auto
















section \<open>Failure kinds (C4)\<close>










section \<open>Card fragments and their identifiers (C5)\<close>

lemma find_str_Some_iff: "find_str s p \<noteq> None \<longleftrightarrow> (\<exists>a b. s = a @ p @ b)"
proof (induction s)
  case Nil
  then show ?case by auto
next
  case (Cons c cs)
  show ?case
  proof (cases "startswith (c # cs) p")
    case True
    then have "\<exists>r. c # cs = [] @ p @ r" by (simp add: startswith_iff)
    with True show ?thesis by (metis find_str.simps(2) option.distinct(1))
  next
    case False
    have "(\<exists>a b. c # cs = a @ p @ b) \<longleftrightarrow> (\<exists>a b. cs = a @ p @ b)"
    proof
      assume "\<exists>a b. c # cs = a @ p @ b"
      then obtain a b where ab: "c # cs = a @ p @ b" by blast
      show "\<exists>a b. cs = a @ p @ b"
      proof (cases a)
        case Nil
        with ab False show ?thesis by (simp add: startswith_iff)
      next
        case (Cons x a')
        with ab show ?thesis by auto
      qed
    next
      assume "\<exists>a b. cs = a @ p @ b"
      then obtain a b where "cs = a @ p @ b" by blast
      then have "c # cs = (c # a) @ p @ b" by simp
      then show "\<exists>a b. c # cs = a @ p @ b" by blast
    qed
    with False Cons.IH show ?thesis by simp
  qed
qed

lemma contains_iff: "contains s p \<longleftrightarrow> (\<exists>a b. s = a @ p @ b)"
  unfolding contains_def by (rule find_str_Some_iff)

lemma contains_window:
  assumes "k + 3 \<le> length L"
  shows "contains (concat L) (L ! k @ L ! (k + 1) @ L ! (k + 2))"
proof -
  have "L = take k L @ [L ! k, L ! (k + 1), L ! (k + 2)] @ drop (k + 3) L"
    using assms
    by (metis (no_types, lifting) Cons_nth_drop_Suc One_nat_def Suc_le_lessD add.commute
        add_2_eq_Suc' add_Suc_right append_Cons append_Nil append_take_drop_id
        less_or_eq_imp_le numeral_3_eq_3 plus_1_eq_Suc)
  then have "concat L = concat (take k L) @ (L ! k @ L ! (k + 1) @ L ! (k + 2)) @ concat (drop (k + 3) L)"
    by (metis append.assoc append_Nil2 concat.simps(1) concat.simps(2) concat_append)
  then show ?thesis unfolding contains_iff by blast
qed


lemma contains_trans: "contains s p \<Longrightarrow> contains p q \<Longrightarrow> contains s q"
  unfolding contains_iff by (metis append.assoc)

lemma filter_loop_eq: "filter_loop cfg filtered rs = filtered @ filter (passes_year_filter cfg) rs"
  by (induction rs arbitrary: filtered) auto

lemma cards_loop_eq:
  "cards_loop cfg i rs cards = cards @ map (\<lambda>k. meet_card cfg (i + k) (rs ! k)) [0 ..< length rs]"
proof (induction rs arbitrary: i cards)
  case Nil
  then show ?case by simp
next
  case (Cons r rs)
  have "map (\<lambda>k. meet_card cfg (i + k) ((r # rs) ! k)) [0 ..< length (r # rs)] =
        meet_card cfg i r # map (\<lambda>k. meet_card cfg (Suc i + k) (rs ! k)) [0 ..< length rs]"
  proof -
    have "[0 ..< length (r # rs)] = 0 # map Suc [0 ..< length rs]"
      by (simp add: upt_conv_Cons map_Suc_upt del: upt_Suc)
    then show ?thesis by (simp add: o_def del: upt_Suc)
  qed
  then show ?case by (simp add: Cons.IH del: upt_Suc)
qed

lemma meet_cards_eq:
  "meet_cards cfg records =
     map (\<lambda>k. meet_card cfg (Suc k) (filter (passes_year_filter cfg) records ! k))
       [0 ..< length (filter (passes_year_filter cfg) records)]"
  by (simp add: meet_cards_def filter_loop_eq cards_loop_eq)

lemma digit_val_digit: "k < 10 \<Longrightarrow> digit_val (''0123456789'' ! k) = int k"
proof -
  assume "k < 10"
  then have "k \<in> {0, 1, 2, 3, 4, 5, 6, 7, 8, 9}" by auto
  then show ?thesis by (auto simp: digit_val_def)
qed

lemma dec_snoc: "dec (ds @ [c]) = 10 * dec ds + digit_val c"
  by (simp add: dec_def)

lemma dec_str_nat: "dec (str_nat n) = int n"
proof (induction n rule: str_nat.induct)
  case (1 n)
  show ?case
  proof (cases "n < 10")
    case True
    then show ?thesis
      by (subst str_nat.simps) (simp add: dec_def digit_val_digit)
  next
    case False
    have "dec (str_nat n) = 10 * dec (str_nat (n div 10)) + digit_val (''0123456789'' ! (n mod 10))"
      using False by (subst str_nat.simps) (simp add: dec_snoc)
    also have "\<dots> = 10 * int (n div 10) + int (n mod 10)"
      using "1.IH" [OF False] by (simp add: digit_val_digit)
    also have "\<dots> = int n"
      by (simp add: zdiv_int zmod_int)
    finally show ?thesis .
  qed
qed

lemma str_nat_inj: "str_nat m = str_nat n \<Longrightarrow> m = n"
  by (metis dec_str_nat of_nat_eq_iff)

lemma details_id_inj: "details_id i = details_id j \<Longrightarrow> i = j"
  by (simp add: details_id_def str_nat_inj)

lemma title_id_inj: "title_id i = title_id j \<Longrightarrow> i = j"
  by (simp add: title_id_def str_nat_inj)


lemma contains_window':
  assumes "k + 3 \<le> length L" and "L ! k = a" and "L ! (k + 1) = b" and "L ! (k + 2) = c"
  shows "contains (concat L) (a @ b @ c)"
  using contains_window [OF assms(1)] assms(2-4) by simp

lemma card_labelledby:
  \<open>contains (meet_card cfg i r) (''aria-labelledby="'' @ title_id i @ ''"'')\<close>
proof -
  have \<open>contains (meet_card cfg i r) (''        <article class="meet-card" aria-labelledby="'' @ title_id i @ ''">'')\<close>
    unfolding meet_card_def Let_def
    by (rule contains_window' [where k = 1]) simp_all
  moreover have \<open>contains (''        <article class="meet-card" aria-labelledby="'' @ title_id i @ ''">'') (''aria-labelledby="'' @ title_id i @ ''"'')\<close>
    unfolding contains_iff
    by (rule exI [of _ \<open>''        <article class="meet-card" ''\<close>], rule exI [of _ \<open>''>''\<close>]) simp
  ultimately show ?thesis by (rule contains_trans)
qed

lemma card_title:
  \<open>contains (meet_card cfg i r) (''<h3 id="'' @ title_id i @ ''">'')\<close>
proof -
  have \<open>contains (meet_card cfg i r) (''          <h3 id="'' @ title_id i @ ''">'')\<close>
    unfolding meet_card_def Let_def
    by (rule contains_window' [where k = 5]) simp_all
  moreover have \<open>contains (''          <h3 id="'' @ title_id i @ ''">'') (''<h3 id="'' @ title_id i @ ''">'')\<close>
    unfolding contains_iff
    by (rule exI [of _ \<open>''          ''\<close>], rule exI [of _ \<open>''''\<close>]) simp
  ultimately show ?thesis by (rule contains_trans)
qed

lemma card_controls:
  \<open>contains (meet_card cfg i r) (''aria-controls="'' @ details_id i @ ''"'')\<close>
proof -
  have \<open>contains (meet_card cfg i r) (''          <button type="button" class="open-panel" aria-expanded="false" aria-controls="'' @ details_id i @ ''">'')\<close>
    unfolding meet_card_def Let_def
    by (rule contains_window' [where k = 20]) simp_all
  moreover have \<open>contains (''          <button type="button" class="open-panel" aria-expanded="false" aria-controls="'' @ details_id i @ ''">'') (''aria-controls="'' @ details_id i @ ''"'')\<close>
    unfolding contains_iff
    by (rule exI [of _ \<open>''          <button type="button" class="open-panel" aria-expanded="false" ''\<close>], rule exI [of _ \<open>''>''\<close>]) simp
  ultimately show ?thesis by (rule contains_trans)
qed

lemma card_details:
  \<open>contains (meet_card cfg i r) (''<div id="'' @ details_id i @ ''" class="race-details" hidden>'')\<close>
proof -
  have \<open>contains (meet_card cfg i r) (''          <div id="'' @ details_id i @ ''" class="race-details" hidden>'')\<close>
    unfolding meet_card_def Let_def
    by (rule contains_window' [where k = 29]) simp_all
  moreover have \<open>contains (''          <div id="'' @ details_id i @ ''" class="race-details" hidden>'') (''<div id="'' @ details_id i @ ''" class="race-details" hidden>'')\<close>
    unfolding contains_iff
    by (rule exI [of _ \<open>''          ''\<close>], rule exI [of _ \<open>''''\<close>]) simp
  ultimately show ?thesis by (rule contains_trans)
qed

text \<open>
  C5: let \<open>N\<close> be the number of records that pass the year filter.  \<^verbatim>\<open>build_meet_cards\<close>
  builds exactly \<open>N\<close> card fragments; the \<open>k\<close>-th fragment (counting from 1) is the card of
  the \<open>k\<close>-th filtered record and carries the panel identifier \<^verbatim>\<open>race-details-k\<close> (as the
  \<^verbatim>\<open>id\<close> of the panel and as the \<^verbatim>\<open>aria-controls\<close> of the toggle) and the title identifier
  \<^verbatim>\<open>meet-k-title\<close> (as the \<^verbatim>\<open>id\<close> of the heading and as \<^verbatim>\<open>aria-labelledby\<close>), where \<open>k\<close> is
  written in decimal; different numbers give different identifiers.  For \<open>N \<ge> 1\<close> the
  output is the concatenation of the fragments, for \<open>N = 0\<close> there is no fragment and the
  output is exactly the placeholder \<^verbatim>\<open><p>No meets found.</p>\<close>.
\<close>

theorem build_meet_cards_fragments:
  \<open>let filtered = filter (passes_year_filter cfg) records;
       N = length filtered;
       cards = meet_cards cfg records
   in length cards = N \<and>
      (\<forall>k<N. cards ! k = meet_card cfg (Suc k) (filtered ! k) \<and>
         contains (cards ! k)
           (''<div id="'' @ details_id (Suc k) @ ''" class="race-details" hidden>'') \<and>
         contains (cards ! k) (''aria-controls="'' @ details_id (Suc k) @ ''"'') \<and>
         contains (cards ! k) (''<h3 id="'' @ title_id (Suc k) @ ''">'') \<and>
         contains (cards ! k) (''aria-labelledby="'' @ title_id (Suc k) @ ''"'')) \<and>
      (\<forall>i j. details_id i = details_id j \<longrightarrow> i = j) \<and>
      (\<forall>i j. title_id i = title_id j \<longrightarrow> i = j) \<and>
      (\<forall>i. details_id i = ''race-details-'' @ str_nat i \<and>
           title_id i = ''meet-'' @ str_nat i @ ''-title'' \<and> dec (str_nat i) = int i) \<and>
      build_meet_cards cfg records =
        (if N = 0 then ''<p>No meets found.</p>'' else concat cards)\<close>
proof -
  define filtered where "filtered = filter (passes_year_filter cfg) records"
  define cards where "cards = meet_cards cfg records"
  have cards: "cards = map (\<lambda>k. meet_card cfg (Suc k) (filtered ! k)) [0 ..< length filtered]"
    unfolding cards_def filtered_def by (rule meet_cards_eq)
  have len: "length cards = length filtered" by (simp add: cards)
  have nth: "cards ! k = meet_card cfg (Suc k) (filtered ! k)" if "k < length filtered" for k
    using that by (simp add: cards)
  have ids: "(\<forall>i j. details_id i = details_id j \<longrightarrow> i = j) \<and>
      (\<forall>i j. title_id i = title_id j \<longrightarrow> i = j) \<and>
      (\<forall>i. details_id i = ''race-details-'' @ str_nat i \<and>
           title_id i = ''meet-'' @ str_nat i @ ''-title'' \<and> dec (str_nat i) = int i)"
    using details_id_inj title_id_inj by (auto simp: details_id_def title_id_def dec_str_nat)
  have out: "build_meet_cards cfg records =
        (if length filtered = 0 then ''<p>No meets found.</p>'' else concat cards)"
    using len by (auto simp: build_meet_cards_def Let_def cards_def [symmetric])
  have all: \<open>\<forall>k<length filtered. cards ! k = meet_card cfg (Suc k) (filtered ! k) \<and>
         contains (cards ! k)
           (''<div id="'' @ details_id (Suc k) @ ''" class="race-details" hidden>'') \<and>
         contains (cards ! k) (''aria-controls="'' @ details_id (Suc k) @ ''"'') \<and>
         contains (cards ! k) (''<h3 id="'' @ title_id (Suc k) @ ''">'') \<and>
         contains (cards ! k) (''aria-labelledby="'' @ title_id (Suc k) @ ''"'')\<close>
  proof (intro allI impI)
    fix k assume "k < length filtered"
    then have eq: "cards ! k = meet_card cfg (Suc k) (filtered ! k)" by (rule nth)
    show \<open>cards ! k = meet_card cfg (Suc k) (filtered ! k) \<and>
         contains (cards ! k)
           (''<div id="'' @ details_id (Suc k) @ ''" class="race-details" hidden>'') \<and>
         contains (cards ! k) (''aria-controls="'' @ details_id (Suc k) @ ''"'') \<and>
         contains (cards ! k) (''<h3 id="'' @ title_id (Suc k) @ ''">'') \<and>
         contains (cards ! k) (''aria-labelledby="'' @ title_id (Suc k) @ ''"'')\<close>
      unfolding eq
      by (intro conjI refl card_details card_controls card_title card_labelledby)
  qed
  show ?thesis
    unfolding Let_def filtered_def [symmetric] cards_def [symmetric]
    by (intro conjI len all ids [THEN conjunct1] ids [THEN conjunct2, THEN conjunct1]
          ids [THEN conjunct2, THEN conjunct2] out)
qed
theorem build_meet_cards_fragments_witness:
  \<open>length (meet_cards source_config
            [[''Meet Name'' \<mapsto> ''Open''], [''Meet Name'' \<mapsto> ''Relays'']]) = 2 \<and>
   contains (meet_cards source_config
            [[''Meet Name'' \<mapsto> ''Open''], [''Meet Name'' \<mapsto> ''Relays'']] ! 1)
     ''<div id="race-details-2" class="race-details" hidden>'' \<and>
   contains (meet_cards source_config
            [[''Meet Name'' \<mapsto> ''Open''], [''Meet Name'' \<mapsto> ''Relays'']] ! 1)
     ''<h3 id="meet-2-title">'' \<and>
   build_meet_cards source_config [] = ''<p>No meets found.</p>''\<close>
proof -
  let ?rs = "[[''Meet Name'' \<mapsto> ''Open''], [''Meet Name'' \<mapsto> ''Relays'']]"
  have f: "filter (passes_year_filter source_config) rs = rs" for rs
    by (simp add: passes_year_filter_def source_config_def)
  note T = build_meet_cards_fragments [of source_config ?rs, unfolded Let_def f]
  have len: "length (meet_cards source_config ?rs) = 2"
    using T [THEN conjunct1] by simp
  have one: "(1::nat) < length ?rs" by simp
  note K = T [THEN conjunct2, THEN conjunct1, rule_format, OF one]
  have d: \<open>''<div id="'' @ details_id (Suc 1) @ ''" class="race-details" hidden>'' =
           ''<div id="race-details-2" class="race-details" hidden>''\<close>
    by code_simp
  have t: \<open>''<h3 id="'' @ title_id (Suc 1) @ ''">'' = ''<h3 id="meet-2-title">''\<close>
    by code_simp
  have c1: \<open>contains (meet_cards source_config ?rs ! 1)
              ''<div id="race-details-2" class="race-details" hidden>''\<close>
    using K [THEN conjunct2, THEN conjunct1] unfolding d .
  have c2: \<open>contains (meet_cards source_config ?rs ! 1) ''<h3 id="meet-2-title">''\<close>
    using K [THEN conjunct2, THEN conjunct2, THEN conjunct2, THEN conjunct1] unfolding t .
  have e: "build_meet_cards source_config [] = ''<p>No meets found.</p>''"
    using build_meet_cards_fragments [of source_config "[]"] by (simp add: Let_def)
  from len c1 c2 e show ?thesis by blast
qed

section \<open>The year filter (C7)\<close>








lemma image_url_year_filter [simp]: "image_url (cfg\<lparr>YEAR_FILTER := y\<rparr>) fn = image_url cfg fn"
  by (simp add: image_url_def Let_def)

lemma meet_card_year_filter [simp]: "meet_card (cfg\<lparr>YEAR_FILTER := y\<rparr>) i r = meet_card cfg i r"
  by (simp add: meet_card_def img_html_def)

lemma passes_unset [simp]: "passes_year_filter (cfg\<lparr>YEAR_FILTER := None\<rparr>) r"
  by (simp add: passes_year_filter_def)








section \<open>The order of the race series (C6)\<close>














end
